theory Spec2Isabelle
  imports Main "HOL-Library.Sublist"
begin

section \<open>Python values and errors\<close>

text \<open>
  The adapter in \<^verbatim>\<open>geopy/geocoders/geonames.py\<close> works on the decoded JSON body of a
  response. A decoded body is a Python value: \<^verbatim>\<open>None\<close>, a bool, an int, a float, a str,
  a list or a dict with string keys. Floats are kept abstract (type \<open>'f\<close>); a dict is an
  association list, looked up with \<open>map_of\<close>.
\<close>

datatype 'f json =
    JNull
  | JBool bool
  | JInt int
  | JFloat 'f
  | JStr string
  | JArr "'f json list"
  | JObj "(string \<times> 'f json) list"

type_synonym 'f dict = "(string \<times> 'f json) list"

text \<open>Every exception the module raises, or lets escape, is a value of this type.\<close>

datatype pyerr =
    ConfigurationError string
  | GeocoderInsufficientPrivileges string
  | GeocoderQueryError string
  | GeocoderServiceError string
  | ValueError string
  | TypeError
  | AttributeError
  | KeyError
  | IndexError
  | OtherError string

text \<open>
  \<^verbatim>\<open>DEFAULT_SENTINEL\<close> of \<^verbatim>\<open>geopy.geocoders.base\<close> marks an argument the caller did not
  supply.
\<close>

datatype 'a defaulted = DEFAULT_SENTINEL | Given 'a

datatype pywarning = DeprecationWarning string

datatype pval = PStr string | PInt int

text \<open>
  Modelled from the spec: the class \<^verbatim>\<open>Location\<close> of \<^verbatim>\<open>geopy.location\<close> is not part of
  the module; the spec describes its value as a display label, a coordinate pair and the
  raw source place. The three fields are the three arguments of the constructor call.
\<close>

record 'f location =
  address :: string
  point :: "'f \<times> 'f"
  raw :: "'f dict"

text \<open>
  What \<^verbatim>\<open>_parse_json\<close> returns: a single value (\<^verbatim>\<open>None\<close> or a \<^verbatim>\<open>Location\<close>), or a
  list whose members are \<^verbatim>\<open>None\<close> or a \<^verbatim>\<open>Location\<close>.
\<close>

datatype 'f reply =
    Single "'f location option"
  | Several "'f location option list"

section \<open>Collaborators\<close>

text \<open>
  The base class, the standard library and the HTTP transport are outside the module.
  They are parameters of the model; each may fail with an error of its own.
\<close>

record geocoder_base =
  base_scheme :: string
  base_format_string :: string

record 'o init_args =
  arg_country_bias :: "string option"
  arg_username :: "string option"
  arg_timeout :: "'o defaulted"
  arg_proxies :: "'o defaulted"
  arg_user_agent :: "string option"
  arg_format_string :: "string option"
  arg_ssl_context :: "'o defaulted"
  arg_scheme :: "string option"

record ('q, 'o, 'f) env =
  Geocoder_init :: "'o init_args \<Rightarrow> pyerr + geocoder_base"
  coerce_point_to_string :: "'q \<Rightarrow> pyerr + string"
  percent_format :: "string \<Rightarrow> 'q \<Rightarrow> pyerr + string"
  urlencode :: "(string \<times> pval) list \<Rightarrow> string"
  call_geocoder :: "string \<Rightarrow> 'o defaulted \<Rightarrow> pyerr + 'f dict"
  float_of_int :: "int \<Rightarrow> pyerr + 'f"
  float_of_str :: "string \<Rightarrow> pyerr + 'f"
  float_bool :: "'f \<Rightarrow> bool"

section \<open>Python built-ins on decoded values\<close>

text \<open>Truth value of a Python object, as \<^verbatim>\<open>if x:\<close> tests it.\<close>

fun truthy :: "('q, 'o, 'f) env \<Rightarrow> 'f json \<Rightarrow> bool" where
  "truthy E JNull = False"
| "truthy E (JBool b) = b"
| "truthy E (JInt n) = (n \<noteq> 0)"
| "truthy E (JFloat x) = float_bool E x"
| "truthy E (JStr s) = (s \<noteq> [])"
| "truthy E (JArr xs) = (xs \<noteq> [])"
| "truthy E (JObj d) = (d \<noteq> [])"

text \<open>\<^verbatim>\<open>if s:\<close> for an optional string argument.\<close>

fun truthy_str :: "string option \<Rightarrow> bool" where
  "truthy_str None = False"
| "truthy_str (Some s) = (s \<noteq> [])"

text \<open>\<^verbatim>\<open>d.get(k, default)\<close>; Python's \<^verbatim>\<open>None\<close> is \<open>JNull\<close>.\<close>

definition dict_get :: "'f dict \<Rightarrow> string \<Rightarrow> 'f json \<Rightarrow> 'f json" where
  "dict_get d k dflt = (case map_of d k of None \<Rightarrow> dflt | Some v \<Rightarrow> v)"

text \<open>\<^verbatim>\<open>len(x)\<close>: defined on str, list and dict.\<close>

fun py_len :: "'f json \<Rightarrow> pyerr + nat" where
  "py_len (JStr s) = Inr (length s)"
| "py_len (JArr xs) = Inr (length xs)"
| "py_len (JObj d) = Inr (length d)"
| "py_len _ = Inl TypeError"

fun is_substring :: "string \<Rightarrow> string \<Rightarrow> bool" where
  "is_substring p [] = (p = [])"
| "is_substring p (c # cs) = (prefix p (c # cs) \<or> is_substring p cs)"

text \<open>\<^verbatim>\<open>k in x\<close> for a string \<open>k\<close>: key of a dict, substring of a str, member of a list.\<close>

fun py_in :: "string \<Rightarrow> 'f json \<Rightarrow> pyerr + bool" where
  "py_in k (JObj d) = Inr (map_of d k \<noteq> None)"
| "py_in k (JStr s) = Inr (is_substring k s)"
| "py_in k (JArr xs) = Inr (JStr k \<in> set xs)"
| "py_in k _ = Inl TypeError"

text \<open>\<^verbatim>\<open>x[k]\<close> for a string \<open>k\<close>.\<close>

fun py_getitem :: "'f json \<Rightarrow> string \<Rightarrow> pyerr + 'f json" where
  "py_getitem (JObj d) k = (case map_of d k of None \<Rightarrow> Inl KeyError | Some v \<Rightarrow> Inr v)"
| "py_getitem _ k = Inl TypeError"

text \<open>\<^verbatim>\<open>x[0]\<close>; a dict decoded from JSON has no key \<open>0\<close>.\<close>

fun py_first :: "'f json \<Rightarrow> pyerr + 'f json" where
  "py_first (JArr (p # ps)) = Inr p"
| "py_first (JArr []) = Inl IndexError"
| "py_first (JStr (c # cs)) = Inr (JStr [c])"
| "py_first (JStr []) = Inl IndexError"
| "py_first (JObj d) = Inl KeyError"
| "py_first _ = Inl TypeError"

text \<open>The members a \<^verbatim>\<open>for\<close> loop over \<open>x\<close> visits.\<close>

fun py_iter :: "'f json \<Rightarrow> pyerr + 'f json list" where
  "py_iter (JArr xs) = Inr xs"
| "py_iter (JStr s) = Inr (map (\<lambda>c. JStr [c]) s)"
| "py_iter (JObj d) = Inr (map (\<lambda>kv. JStr (fst kv)) d)"
| "py_iter _ = Inl TypeError"

text \<open>\<^verbatim>\<open>float(x)\<close>; parsing a str and converting an int are the interpreter's.\<close>

fun py_float :: "('q, 'o, 'f) env \<Rightarrow> 'f json \<Rightarrow> pyerr + 'f" where
  "py_float E (JBool b) = float_of_int E (if b then 1 else 0)"
| "py_float E (JInt n) = float_of_int E n"
| "py_float E (JFloat x) = Inr x"
| "py_float E (JStr s) = float_of_str E s"
| "py_float E _ = Inl TypeError"

text \<open>\<^verbatim>\<open>sep.join(xs)\<close> on strings.\<close>

fun join :: "string \<Rightarrow> string list \<Rightarrow> string" where
  "join sep [] = []"
| "join sep [x] = x"
| "join sep (x # y # ys) = x @ sep @ join sep (y # ys)"

fun as_str :: "'f json \<Rightarrow> string option" where
  "as_str (JStr s) = Some s"
| "as_str _ = None"

text \<open>\<^verbatim>\<open>sep.join(xs)\<close> on decoded values: a member that is not a str is a TypeError.\<close>

definition py_join :: "string \<Rightarrow> 'f json list \<Rightarrow> pyerr + string" where
  "py_join sep xs =
     (case those (map as_str xs) of None \<Rightarrow> Inl TypeError | Some ss \<Rightarrow> Inr (join sep ss))"

text \<open>\<^verbatim>\<open>s.split(sep)\<close> for a one-character separator.\<close>

fun split_on :: "char \<Rightarrow> string \<Rightarrow> string list" where
  "split_on sep [] = [[]]"
| "split_on sep (c # cs) =
     (if c = sep then [] # split_on sep cs
      else (case split_on sep cs of [] \<Rightarrow> [[c]] | w # ws \<Rightarrow> (c # w) # ws))"

text \<open>A list comprehension whose body may raise: the first error ends it.\<close>

fun traverse :: "('a \<Rightarrow> pyerr + 'b) \<Rightarrow> 'a list \<Rightarrow> pyerr + 'b list" where
  "traverse f [] = Inr []"
| "traverse f (x # xs) =
     (case f x of
        Inl e \<Rightarrow> Inl e
      | Inr y \<Rightarrow> (case traverse f xs of Inl e \<Rightarrow> Inl e | Inr ys \<Rightarrow> Inr (y # ys)))"

section \<open>The adapter\<close>

record geonames =
  username :: string
  country_bias :: "string option"
  scheme :: string
  format_string :: string
  api :: string
  api_reverse :: string
  api_reverse_nearby :: string
  api_timezone :: string

definition geocode_path :: string where "geocode_path = ''/searchJSON''"
definition reverse_path :: string where "reverse_path = ''/findNearbyPlaceNameJSON''"
definition reverse_nearby_path :: string where "reverse_nearby_path = ''/findNearbyJSON''"
definition timezone_path :: string where "timezone_path = ''/timezoneJSON''"

definition no_username_message :: string where
  "no_username_message =
     ''No username given, required for api access.  If you do not '' @
     ''have a GeoNames username, sign up here: '' @
     ''http://www.geonames.org/login''"

text \<open>
  \<^verbatim>\<open>GeoNames.__init__\<close>: the base class is initialised first, then the username is
  tested with \<^verbatim>\<open>is None\<close>, then the four endpoint URLs are derived.
\<close>

definition GeoNames_init ::
  "('q, 'o, 'f) env \<Rightarrow> 'o init_args \<Rightarrow> pyerr + geonames" where
  "GeoNames_init E a =
     (case Geocoder_init E a of
        Inl e \<Rightarrow> Inl e
      | Inr b \<Rightarrow>
          (case arg_username a of
             None \<Rightarrow> Inl (ConfigurationError no_username_message)
           | Some u \<Rightarrow>
               (let domain = ''api.geonames.org'' in
                Inr \<lparr> username = u,
                      country_bias = arg_country_bias a,
                      scheme = base_scheme b,
                      format_string = base_format_string b,
                      api = base_scheme b @ ''://'' @ domain @ geocode_path,
                      api_reverse = base_scheme b @ ''://'' @ domain @ reverse_path,
                      api_reverse_nearby = base_scheme b @ ''://'' @ domain @ reverse_nearby_path,
                      api_timezone = base_scheme b @ ''://'' @ domain @ timezone_path \<rparr>)))"

subsection \<open>Parsing a response\<close>

text \<open>
  \<^verbatim>\<open>parse_code\<close>, the inner function of \<^verbatim>\<open>_parse_json\<close>. \<^verbatim>\<open>place.get\<close> exists on a
  dict only.
\<close>

fun parse_code :: "('q, 'o, 'f) env \<Rightarrow> 'f json \<Rightarrow> pyerr + 'f location option" where
  "parse_code E (JObj place) =
     (let latitude = dict_get place ''lat'' JNull;
          longitude = dict_get place ''lng'' JNull
      in if truthy E latitude \<and> truthy E longitude then
           (case py_float E latitude of
              Inl e \<Rightarrow> Inl e
            | Inr la \<Rightarrow>
                (case py_float E longitude of
                   Inl e \<Rightarrow> Inl e
                 | Inr lo \<Rightarrow>
                     (let placename = dict_get place ''name'' JNull;
                          state = dict_get place ''adminName1'' JNull;
                          country = dict_get place ''countryName'' JNull
                      in case py_join '', '' (filter (truthy E) [placename, state, country]) of
                           Inl e \<Rightarrow> Inl e
                         | Inr loc \<Rightarrow>
                             Inr (Some \<lparr> address = loc, point = (la, lo), raw = place \<rparr>))))
         else Inr None)"
| "parse_code E _ = Inl AttributeError"

text \<open>
  The status test of \<^verbatim>\<open>_parse_json\<close>: the error it raises, if any.
  \<^verbatim>\<open>err['message'].startswith\<close> exists on a str only.
\<close>

definition status_error :: "('q, 'o, 'f) env \<Rightarrow> 'f json \<Rightarrow> pyerr option" where
  "status_error E err =
     (if truthy E err then
        (case py_in ''message'' err of
           Inl e \<Rightarrow> Some e
         | Inr False \<Rightarrow> None
         | Inr True \<Rightarrow>
             (case py_getitem err ''message'' of
                Inl e \<Rightarrow> Some e
              | Inr (JStr m) \<Rightarrow>
                  (if prefix ''user account not enabled to use'' m
                   then Some (GeocoderInsufficientPrivileges m)
                   else Some (GeocoderServiceError m))
              | Inr _ \<Rightarrow> Some AttributeError))
      else None)"

definition parse_json ::
  "('q, 'o, 'f) env \<Rightarrow> 'f dict \<Rightarrow> bool \<Rightarrow> pyerr + 'f reply" where
  "parse_json E doc exactly_one =
     (let places = dict_get doc ''geonames'' (JArr []);
          err = dict_get doc ''status'' JNull
      in case status_error E err of
           Some e \<Rightarrow> Inl e
         | None \<Rightarrow>
             (case py_len places of
                Inl e \<Rightarrow> Inl e
              | Inr n \<Rightarrow>
                  if n = 0 then Inr (Single None)
                  else if exactly_one then
                    (case py_first places of
                       Inl e \<Rightarrow> Inl e
                     | Inr p \<Rightarrow>
                         (case parse_code E p of Inl e \<Rightarrow> Inl e | Inr r \<Rightarrow> Inr (Single r)))
                  else
                    (case py_iter places of
                       Inl e \<Rightarrow> Inl e
                     | Inr ps \<Rightarrow>
                         (case traverse (parse_code E) ps of
                            Inl e \<Rightarrow> Inl e
                          | Inr rs \<Rightarrow> Inr (Several rs)))))"

subsection \<open>Requests\<close>

text \<open>
  What a call does besides returning: the warnings it hands to \<^verbatim>\<open>warnings.warn\<close> and
  the URLs it hands to the transport, in order.
\<close>

record 'f effect =
  warned :: "pywarning list"
  requested :: "string list"
  outcome :: "pyerr + 'f reply"

text \<open>\<^verbatim>\<open>self._parse_json(self._call_geocoder(url, timeout=timeout), exactly_one)\<close>\<close>

definition call_and_parse ::
  "('q, 'o, 'f) env \<Rightarrow> string \<Rightarrow> 'o defaulted \<Rightarrow> bool \<Rightarrow> pyerr + 'f reply" where
  "call_and_parse E url timeout exactly_one =
     (case call_geocoder E url timeout of
        Inl e \<Rightarrow> Inl e
      | Inr doc \<Rightarrow> parse_json E doc exactly_one)"

text \<open>
  \<^verbatim>\<open>geocode\<close>: the parameters are built in the order of the source; the call to
  \<^verbatim>\<open>logger.debug\<close> changes nothing the caller sees and is left out.
\<close>

definition geocode ::
  "('q, 'o, 'f) env \<Rightarrow> geonames \<Rightarrow> 'q \<Rightarrow> bool \<Rightarrow> 'o defaulted \<Rightarrow> 'f effect" where
  "geocode E self query exactly_one timeout =
     (case percent_format E (format_string self) query of
        Inl e \<Rightarrow> \<lparr> warned = [], requested = [], outcome = Inl e \<rparr>
      | Inr q \<Rightarrow>
          (let params = [(''q'', PStr q), (''username'', PStr (username self))]
                 @ (if truthy_str (country_bias self)
                    then [(''countryBias'', PStr (the (country_bias self)))] else [])
                 @ (if exactly_one then [(''maxRows'', PInt 1)] else []);
               url = api self @ ''?'' @ urlencode E params
           in \<lparr> warned = [], requested = [url],
                outcome = call_and_parse E url timeout exactly_one \<rparr>))"

definition reverse_find_nearby_params ::
  "geonames \<Rightarrow> string \<Rightarrow> string \<Rightarrow> string option \<Rightarrow> (string \<times> pval) list" where
  "reverse_find_nearby_params self lat lng feature_code =
     [(''lat'', PStr lat), (''lng'', PStr lng), (''username'', PStr (username self))]
     @ (if truthy_str feature_code then [(''featureCode'', PStr (the feature_code))] else [])"

definition reverse_find_nearby_place_name_params ::
  "geonames \<Rightarrow> string \<Rightarrow> string \<Rightarrow> string option \<Rightarrow> (string \<times> pval) list" where
  "reverse_find_nearby_place_name_params self lat lng lang =
     [(''lat'', PStr lat), (''lng'', PStr lng), (''username'', PStr (username self))]
     @ (if truthy_str lang then [(''lang'', PStr (the lang))] else [])"

text \<open>
  \<^verbatim>\<open>lat, lng = self._coerce_point_to_string(query).split(',')\<close> inside
  \<^verbatim>\<open>try ... except ValueError\<close>: a ValueError of the helper and a split into other than
  two parts both become the ValueError of the handler.
\<close>

definition coordinate_pair :: "('q, 'o, 'f) env \<Rightarrow> 'q \<Rightarrow> pyerr + string \<times> string" where
  "coordinate_pair E query =
     (case coerce_point_to_string E query of
        Inl (ValueError m) \<Rightarrow> Inl (ValueError ''Must be a coordinate pair or Point'')
      | Inl e \<Rightarrow> Inl e
      | Inr s \<Rightarrow>
          (case split_on CHR '','' s of
             [lat, lng] \<Rightarrow> Inr (lat, lng)
           | _ \<Rightarrow> Inl (ValueError ''Must be a coordinate pair or Point'')))"

text \<open>
  The warning of \<^verbatim>\<open>reverse\<close>; \<^verbatim>\<open>type(self).__name__\<close> is the name of the class,
  \<open>GeoNames\<close>.
\<close>

definition exactly_one_warning :: pywarning where
  "exactly_one_warning =
     DeprecationWarning
       (''GeoNames'' @ ''.reverse: default value for `exactly_one` '' @
        ''argument will become True in geopy 2.0. '' @
        ''Specify `exactly_one=False` as the argument '' @
        ''explicitly to get rid of this warning.'')"

text \<open>
  \<^verbatim>\<open>reverse\<close>: the warning comes first, then the coordinate pair, then the mode; a
  request is issued in the two supported modes only.
\<close>

definition reverse ::
  "('q, 'o, 'f) env \<Rightarrow> geonames \<Rightarrow> 'q \<Rightarrow> bool defaulted \<Rightarrow> 'o defaulted \<Rightarrow>
   string option \<Rightarrow> string option \<Rightarrow> string \<Rightarrow> 'f effect" where
  "reverse E self query exactly_one timeout feature_code lang find_nearby_type =
     (let ws = (case exactly_one of DEFAULT_SENTINEL \<Rightarrow> [exactly_one_warning] | Given b \<Rightarrow> []);
          exactly_one = (case exactly_one of DEFAULT_SENTINEL \<Rightarrow> False | Given b \<Rightarrow> b)
      in case coordinate_pair E query of
           Inl e \<Rightarrow> \<lparr> warned = ws, requested = [], outcome = Inl e \<rparr>
         | Inr (lat, lng) \<Rightarrow>
             if find_nearby_type = ''findNearbyPlaceName'' then
               if truthy_str feature_code then
                 \<lparr> warned = ws, requested = [],
                   outcome = Inl (ValueError
                     (''find_nearby_type=findNearbyPlaceName doesn't support '' @
                      ''the `feature_code` param'')) \<rparr>
               else
                 (let params = reverse_find_nearby_place_name_params self lat lng lang;
                      url = api_reverse self @ ''?'' @ urlencode E params
                  in \<lparr> warned = ws, requested = [url],
                       outcome = call_and_parse E url timeout exactly_one \<rparr>)
             else if find_nearby_type = ''findNearby'' then
               if truthy_str lang then
                 \<lparr> warned = ws, requested = [],
                   outcome = Inl (ValueError
                     ''find_nearby_type=findNearby doesn't support the `lang` param'') \<rparr>
               else
                 (let params = reverse_find_nearby_params self lat lng feature_code;
                      url = api_reverse_nearby self @ ''?'' @ urlencode E params
                  in \<lparr> warned = ws, requested = [url],
                       outcome = call_and_parse E url timeout exactly_one \<rparr>)
             else
               \<lparr> warned = ws, requested = [],
                 outcome = Inl (GeocoderQueryError
                   (''`'' @ find_nearby_type @ ''` find_nearby_type is not supported by geopy'')) \<rparr>)"

section \<open>A concrete set of collaborators\<close>

text \<open>
  An instance of the collaborators on which the model can be run: queries are strings
  handed through unchanged, floats are whole numbers, a str converts to a float when it
  is a non-empty run of decimal digits, and the transport answers every request with the
  given body.
\<close>

definition digit_of :: "char \<Rightarrow> int option" where
  "digit_of c =
     map_of [(CHR ''0'', 0), (CHR ''1'', 1), (CHR ''2'', 2), (CHR ''3'', 3), (CHR ''4'', 4),
             (CHR ''5'', 5), (CHR ''6'', 6), (CHR ''7'', 7), (CHR ''8'', 8), (CHR ''9'', 9)] c"

fun digits_value :: "int \<Rightarrow> string \<Rightarrow> int option" where
  "digits_value acc [] = Some acc"
| "digits_value acc (c # cs) =
     (case digit_of c of None \<Rightarrow> None | Some d \<Rightarrow> digits_value (10 * acc + d) cs)"

definition sample_float_of_str :: "string \<Rightarrow> pyerr + int" where
  "sample_float_of_str s =
     (if s = [] then Inl (ValueError ''could not convert string to float'')
      else (case digits_value 0 s of
              None \<Rightarrow> Inl (ValueError ''could not convert string to float'')
            | Some n \<Rightarrow> Inr n))"

definition sample_urlencode :: "(string \<times> pval) list \<Rightarrow> string" where
  "sample_urlencode ps =
     join ''&'' (map (\<lambda>kv. fst kv @ ''='' @ (case snd kv of PStr s \<Rightarrow> s | PInt n \<Rightarrow> ''1'')) ps)"

definition sample_env :: "int dict \<Rightarrow> (string, unit, int) env" where
  "sample_env body =
     \<lparr> Geocoder_init = (\<lambda>a. Inr \<lparr> base_scheme = (case arg_scheme a of None \<Rightarrow> ''https'' | Some s \<Rightarrow> s),
                                  base_format_string = (case arg_format_string a of None \<Rightarrow> ''%s'' | Some s \<Rightarrow> s) \<rparr>),
       coerce_point_to_string = (\<lambda>q. Inr q),
       percent_format = (\<lambda>fmt q. Inr q),
       urlencode = sample_urlencode,
       call_geocoder = (\<lambda>url t. Inr body),
       float_of_int = (\<lambda>n. Inr n),
       float_of_str = sample_float_of_str,
       float_bool = (\<lambda>x. x \<noteq> 0) \<rparr>"

definition sample_args :: "string option \<Rightarrow> unit init_args" where
  "sample_args u =
     \<lparr> arg_country_bias = None, arg_username = u, arg_timeout = DEFAULT_SENTINEL,
       arg_proxies = DEFAULT_SENTINEL, arg_user_agent = None, arg_format_string = None,
       arg_ssl_context = DEFAULT_SENTINEL, arg_scheme = Some ''http'' \<rparr>"

definition sample_adapter :: geonames where
  "sample_adapter =
     \<lparr> username = ''demo'', country_bias = None, scheme = ''http'', format_string = ''%s'',
       api = ''http://api.geonames.org/searchJSON'',
       api_reverse = ''http://api.geonames.org/findNearbyPlaceNameJSON'',
       api_reverse_nearby = ''http://api.geonames.org/findNearbyJSON'',
       api_timezone = ''http://api.geonames.org/timezoneJSON'' \<rparr>"

section \<open>Predicates used to state the properties\<close>

text \<open>
  Field \<open>k\<close> of a place is missing, or present with a value Python takes as false.
\<close>

definition missing_or_falsy :: "('q, 'o, 'f) env \<Rightarrow> 'f dict \<Rightarrow> string \<Rightarrow> bool" where
  "missing_or_falsy E place k = (case map_of place k of None \<Rightarrow> True | Some v \<Rightarrow> \<not> truthy E v)"

text \<open>
  The label as the specification words it: the non-empty members of
  \<open>[name, adminName1, countryName]\<close>, joined with a comma and a space. A member is a
  non-empty part when the field is present and holds a non-empty text.
\<close>

fun text_parts :: "'f json option list \<Rightarrow> string list" where
  "text_parts [] = []"
| "text_parts (Some (JStr s) # xs) = (if s = [] then text_parts xs else s # text_parts xs)"
| "text_parts (_ # xs) = text_parts xs"

definition spec_label :: "'f dict \<Rightarrow> string" where
  "spec_label place =
     join '', '' (text_parts [map_of place ''name'', map_of place ''adminName1'',
                              map_of place ''countryName''])"

section \<open>Auxiliary facts\<close>

lemma dict_get_None: "map_of d k = None \<Longrightarrow> dict_get d k x = x"
  by (simp add: dict_get_def)

lemma dict_get_Some: "map_of d k = Some v \<Longrightarrow> dict_get d k x = v"
  by (simp add: dict_get_def)

lemma missing_or_falsy_get:
  "missing_or_falsy E p k = (\<not> truthy E (dict_get p k JNull))"
  by (simp add: missing_or_falsy_def dict_get_def split: option.split)

lemma parse_code_invalid:
  "missing_or_falsy E p ''lat'' \<or> missing_or_falsy E p ''lng'' \<Longrightarrow>
   parse_code E (JObj p) = Inr None"
  by (auto simp: missing_or_falsy_get Let_def)

lemma parse_code_None_iff:
  "parse_code E (JObj p) = Inr None \<longleftrightarrow>
   missing_or_falsy E p ''lat'' \<or> missing_or_falsy E p ''lng''"
  by (auto simp: missing_or_falsy_get Let_def split: sum.splits)

lemma parse_code_Inr_obj: "parse_code E x = Inr r \<Longrightarrow> \<exists>p. x = JObj p"
  by (cases x) simp_all

text \<open>A comprehension that finishes has one result per member, in order.\<close>

lemma traverse_Inr:
  "traverse f xs = Inr ys \<Longrightarrow>
   length ys = length xs \<and> (\<forall>i<length xs. f (xs ! i) = Inr (ys ! i))"
proof (induction xs arbitrary: ys)
  case Nil
  then show ?case by simp
next
  case (Cons x xs)
  from Cons.prems obtain y zs where fx: "f x = Inr y" and tr: "traverse f xs = Inr zs"
    and ys: "ys = y # zs"
    by (auto split: sum.splits)
  from Cons.IH [OF tr] have len: "length zs = length xs"
    and nth: "\<forall>i<length xs. f (xs ! i) = Inr (zs ! i)" by simp_all
  show ?case
  proof (intro conjI allI impI)
    show "length ys = length (x # xs)" using len ys by simp
  next
    fix i assume "i < length (x # xs)"
    then show "f ((x # xs) ! i) = Inr (ys ! i)"
      using fx nth ys by (cases i) simp_all
  qed
qed

lemma status_error_message:
  "map_of st ''message'' = Some (JStr m) \<Longrightarrow>
   status_error E (JObj st) =
     Some (if prefix ''user account not enabled to use'' m
           then GeocoderInsufficientPrivileges m else GeocoderServiceError m)"
  by (auto simp: status_error_def)

lemma status_error_no_message:
  "map_of st ''message'' = None \<Longrightarrow> status_error E (JObj st) = None"
  by (auto simp: status_error_def)

lemma status_error_null: "status_error E JNull = None"
  by (simp add: status_error_def)

text \<open>Past the status test, a non-empty array of places is parsed member by member.\<close>

lemma parse_json_passed:
  "status_error E (dict_get doc ''status'' JNull) = None \<Longrightarrow>
   map_of doc ''geonames'' = Some (JArr (p # ps)) \<Longrightarrow>
   parse_json E doc exactly_one =
     (if exactly_one
      then (case parse_code E p of Inl e \<Rightarrow> Inl e | Inr r \<Rightarrow> Inr (Single r))
      else (case traverse (parse_code E) (p # ps) of Inl e \<Rightarrow> Inl e | Inr rs \<Rightarrow> Inr (Several rs)))"
  by (simp add: parse_json_def dict_get_Some Let_def)

lemma parse_json_no_places:
  "status_error E (dict_get doc ''status'' JNull) = None \<Longrightarrow>
   map_of doc ''geonames'' = None \<or> map_of doc ''geonames'' = Some (JArr []) \<Longrightarrow>
   parse_json E doc exactly_one = Inr (Single None)"
  by (auto simp: parse_json_def dict_get_def Let_def)

text \<open>
  A response without a status, with a null status, or with a status object that has no
  \<open>message\<close> passes the status test.
\<close>


lemma status_error_absent:
  "map_of doc ''status'' = None \<or> map_of doc ''status'' = Some JNull \<or>
   (\<exists>st. map_of doc ''status'' = Some (JObj st) \<and> map_of st ''message'' = None) \<Longrightarrow>
   status_error E (dict_get doc ''status'' JNull) = None"
  by (auto simp: dict_get_None dict_get_Some status_error_null status_error_no_message)

text \<open>
  A call that issued a request returns what parsing the transport's answer returns.
\<close>


lemma geocode_outcome:
  "requested (geocode E self q exactly_one t) = [url] \<Longrightarrow>
   outcome (geocode E self q exactly_one t) = call_and_parse E url t exactly_one"
  by (auto simp: geocode_def Let_def split: sum.splits)

lemma reverse_outcome:
  "requested (reverse E self q eo t fc lang fnt) = [url] \<Longrightarrow>
   outcome (reverse E self q eo t fc lang fnt) =
     call_and_parse E url t (case eo of DEFAULT_SENTINEL \<Rightarrow> False | Given b \<Rightarrow> b)"
  by (auto simp: reverse_def Let_def split: sum.splits prod.splits if_splits)

text \<open>
  Where the helper returns a string, the coordinate step yields a pair or the ValueError
  of the handler.
\<close>


lemma coordinate_pair_ValueError:
  "coerce_point_to_string E q = Inr s \<Longrightarrow>
   (\<exists>lat lng. coordinate_pair E q = Inr (lat, lng)) \<or>
   (\<exists>m. coordinate_pair E q = Inl (ValueError m))"
  by (auto simp: coordinate_pair_def split: list.splits)

text \<open>
  Joining the truthy members succeeds only when each of them is a str; the strings joined
  are then the non-empty text parts.
\<close>


lemma those_truthy_text_parts:
  "those (map as_str (filter (truthy E) (map (\<lambda>x. case x of None \<Rightarrow> JNull | Some v \<Rightarrow> v) os))) = Some ss
   \<Longrightarrow> ss = text_parts os"
proof (induction os arbitrary: ss)
  case Nil
  then show ?case by simp
next
  case (Cons x os)
  show ?case
  proof (cases x)
    case None
    with Cons show ?thesis by simp
  next
    case (Some v)
    with Cons show ?thesis
      by (cases v) (auto split: if_splits option.splits)
  qed
qed

lemma py_join_text_parts:
  "py_join sep (filter (truthy E) (map (\<lambda>x. case x of None \<Rightarrow> JNull | Some v \<Rightarrow> v) os)) = Inr l
   \<Longrightarrow> l = join sep (text_parts os)"
  by (auto simp: py_join_def split: option.splits dest: those_truthy_text_parts)

lemma map_of_without:
  "map_of (filter (\<lambda>kv. fst kv \<noteq> k) d) k = None"
  by (simp add: map_of_eq_None_iff image_iff)

lemma missing_or_falsy_without:
  "missing_or_falsy E (filter (\<lambda>kv. fst kv \<noteq> k) d) k"
  by (simp add: missing_or_falsy_def map_of_without)

text \<open>
  The requests of the sample adapter for the query \<open>Berlin\<close> and the point \<open>52,13\<close>.
\<close>


lemma sample_geocode_request:
  "requested (geocode (sample_env body) sample_adapter ''Berlin'' True DEFAULT_SENTINEL) =
     [''http://api.geonames.org/searchJSON?q=Berlin&username=demo&maxRows=1'']"
  by (simp add: geocode_def sample_env_def sample_adapter_def sample_urlencode_def Let_def)

lemma sample_reverse_request:
  "requested (reverse (sample_env body) sample_adapter ''52,13'' eo DEFAULT_SENTINEL None None
               ''findNearbyPlaceName'') =
     [''http://api.geonames.org/findNearbyPlaceNameJSON?lat=52&lng=13&username=demo'']"
  by (simp add: reverse_def coordinate_pair_def reverse_find_nearby_place_name_params_def
      sample_env_def sample_adapter_def sample_urlencode_def Let_def)

section \<open>Construction\<close>

text \<open>
  C1 (amended). When the base class initialises, construction fails with
  ConfigurationError, at construction time, if the username argument is absent
  (\<^verbatim>\<open>None\<close>); any username that is given, the empty string included, is accepted and
  stored.
\<close>

theorem C1_username:
  assumes "Geocoder_init E a = Inr b"
  shows "(arg_username a = None \<longrightarrow>
            GeoNames_init E a = Inl (ConfigurationError no_username_message)) \<and>
         (\<forall>u. arg_username a = Some u \<longrightarrow>
            (\<exists>g. GeoNames_init E a = Inr g \<and> username g = u))"
  using assms by (simp add: GeoNames_init_def)

text \<open>C1, at the sample collaborators with no username.\<close>

theorem C1_username_witness:
  "Geocoder_init (sample_env []) (sample_args None) =
     Inr \<lparr> base_scheme = ''http'', base_format_string = ''%s'' \<rparr> \<and>
   arg_username (sample_args None) = None \<and>
   GeoNames_init (sample_env []) (sample_args None) =
     Inl (ConfigurationError no_username_message)"
proof -
  have h: "Geocoder_init (sample_env []) (sample_args None) =
     Inr \<lparr> base_scheme = ''http'', base_format_string = ''%s'' \<rparr>"
    by (simp add: sample_env_def sample_args_def)
  have u: "arg_username (sample_args None) = None"
    by (simp add: sample_args_def)
  from C1_username [OF h] u h show ?thesis by simp
qed

text \<open>
  C1 as stated fails for the empty string: \<^verbatim>\<open>GeoNames(username='')\<close> returns an
  adapter whose username is the empty string.
\<close>

theorem C1_empty_username_counterexample:
  "GeoNames_init (sample_env []) (sample_args (Some [])) =
     Inr (sample_adapter \<lparr> username := [] \<rparr>)"
  by (simp add: GeoNames_init_def sample_env_def sample_args_def sample_adapter_def
      geocode_path_def reverse_path_def reverse_nearby_path_def timezone_path_def)

section \<open>Parsing\<close>

text \<open>
  C2 (amended). With \<^verbatim>\<open>exactly_one\<close> false, whenever parsing a non-empty array of
  places returns, it returns a list with exactly one member per place, in the order of
  the response; the member of a place is \<^verbatim>\<open>None\<close> exactly when the place's \<open>lat\<close> or
  \<open>lng\<close> is missing or falsy. Such a place is kept as a \<^verbatim>\<open>None\<close> member, not dropped.
\<close>

theorem C2_places_kept:
  assumes "parse_json E doc False = Inr r"
    and "map_of doc ''geonames'' = Some (JArr ps)"
    and "ps \<noteq> []"
  shows "\<exists>rs. r = Several rs \<and> length rs = length ps \<and>
           (\<forall>i<length ps. \<exists>p. ps ! i = JObj p \<and> parse_code E (JObj p) = Inr (rs ! i) \<and>
              (rs ! i = None \<longleftrightarrow>
                 missing_or_falsy E p ''lat'' \<or> missing_or_falsy E p ''lng''))"
proof -
  from assms obtain rs where tr: "traverse (parse_code E) ps = Inr rs" and r: "r = Several rs"
    by (auto simp: parse_json_def dict_get_Some Let_def split: option.splits sum.splits)
  from traverse_Inr [OF tr] have len: "length rs = length ps"
    and nth: "\<forall>i<length ps. parse_code E (ps ! i) = Inr (rs ! i)" by simp_all
  have "\<exists>p. ps ! i = JObj p \<and> parse_code E (JObj p) = Inr (rs ! i) \<and>
          (rs ! i = None \<longleftrightarrow> missing_or_falsy E p ''lat'' \<or> missing_or_falsy E p ''lng'')"
    if "i < length ps" for i
  proof -
    from nth that have pc: "parse_code E (ps ! i) = Inr (rs ! i)" by simp
    then obtain p where p: "ps ! i = JObj p" using parse_code_Inr_obj by blast
    from pc p have "parse_code E (JObj p) = Inr (rs ! i)" by simp
    with parse_code_None_iff [of E p] p show ?thesis by auto
  qed
  with r len show ?thesis by blast
qed

text \<open>C2, at a response whose only place has no \<open>lat\<close>.\<close>

theorem C2_places_kept_witness:
  "parse_json (sample_env []) [(''geonames'', JArr [JObj [(''lng'', JStr ''13'')]])] False =
     Inr (Several [None]) \<and>
   (\<exists>rs. Several [None] = Several rs \<and> length rs = length [JObj [(''lng'', JStr ''13'')]] \<and>
      (\<forall>i<length [JObj [(''lng'', JStr ''13'')]].
         \<exists>p. [JObj [(''lng'', JStr ''13'')]] ! i = JObj p \<and>
             parse_code (sample_env []) (JObj p) = Inr (rs ! i) \<and>
             (rs ! i = None \<longleftrightarrow>
                missing_or_falsy (sample_env []) p ''lat'' \<or>
                missing_or_falsy (sample_env []) p ''lng'')))"
proof -
  have run: "parse_json (sample_env []) [(''geonames'', JArr [JObj [(''lng'', JStr ''13'')]])] False =
     Inr (Several [None])"
    by (simp add: parse_json_def dict_get_def status_error_def Let_def)
  have places: "map_of [(''geonames'', JArr [JObj [(''lng'', JStr ''13'') :: string \<times> int json]])] ''geonames'' =
     Some (JArr [JObj [(''lng'', JStr ''13'')]])"
    by simp
  have ne: "[JObj [(''lng'', JStr ''13'') :: string \<times> int json]] \<noteq> []" by simp
  from C2_places_kept [OF run places ne] run show ?thesis by simp
qed

text \<open>
  C2 as stated fails: a response with a valid place followed by a place without \<open>lat\<close>
  parses, with \<^verbatim>\<open>exactly_one\<close> false, to a list of two members whose second member is
  \<^verbatim>\<open>None\<close>.
\<close>

theorem C2_placeholder_counterexample:
  "parse_json (sample_env [])
     [(''geonames'', JArr [JObj [(''lat'', JStr ''52''), (''lng'', JStr ''13''),
                                  (''name'', JStr ''Berlin''), (''countryName'', JStr ''Germany'')],
                           JObj [(''lng'', JStr ''13''), (''name'', JStr ''Nowhere'')]])]
     False =
   Inr (Several [Some \<lparr> address = ''Berlin, Germany'', point = (52, 13),
                          raw = [(''lat'', JStr ''52''), (''lng'', JStr ''13''),
                                 (''name'', JStr ''Berlin''), (''countryName'', JStr ''Germany'')] \<rparr>,
                 None])"
  by (simp add: parse_json_def dict_get_def status_error_def Let_def sample_env_def
      sample_float_of_str_def digit_of_def py_join_def)

text \<open>
  C3. With \<^verbatim>\<open>exactly_one\<close> true, a response that passes the status test and whose
  array of places starts with a place whose \<open>lat\<close> or \<open>lng\<close> is missing or falsy parses
  to \<^verbatim>\<open>None\<close>, whatever places follow: a later valid place is never selected.
\<close>

theorem C3_first_invalid:
  assumes "status_error E (dict_get doc ''status'' JNull) = None"
    and "map_of doc ''geonames'' = Some (JArr (JObj p # ps))"
    and "missing_or_falsy E p ''lat'' \<or> missing_or_falsy E p ''lng''"
  shows "parse_json E doc True = Inr (Single None)"
  using assms by (simp add: parse_json_passed parse_code_invalid del: parse_code.simps)

text \<open>C3, at a response whose first place has no \<open>lat\<close> and whose second place is valid.\<close>

theorem C3_first_invalid_witness:
  "parse_json (sample_env [])
     [(''geonames'', JArr [JObj [(''lng'', JStr ''13''), (''name'', JStr ''Nowhere'')],
                           JObj [(''lat'', JStr ''52''), (''lng'', JStr ''13''),
                                 (''name'', JStr ''Berlin'')]])]
     True = Inr (Single None)"
proof -
  let ?p = "[(''lng'', JStr ''13''), (''name'', JStr ''Nowhere'')] :: int dict"
  let ?q = "JObj [(''lat'', JStr ''52''), (''lng'', JStr ''13''), (''name'', JStr ''Berlin'')] :: int json"
  let ?doc = "[(''geonames'', JArr [JObj ?p, ?q])]"
  have st: "status_error (sample_env []) (dict_get ?doc ''status'' JNull) = None"
    by (simp add: dict_get_def status_error_def)
  have pl: "map_of ?doc ''geonames'' = Some (JArr (JObj ?p # [?q]))" by simp
  have inv: "missing_or_falsy (sample_env []) ?p ''lat'' \<or> missing_or_falsy (sample_env []) ?p ''lng''"
    by (simp add: missing_or_falsy_def)
  from C3_first_invalid [OF st pl inv] show ?thesis .
qed

text \<open>
  C4. A response whose \<open>status\<close> is an object with a text \<open>message\<close> never parses to a
  result, whatever places it carries and whatever \<^verbatim>\<open>exactly_one\<close> is: parsing fails with
  GeocoderInsufficientPrivileges carrying the message when the message starts with
  "user account not enabled to use", and with GeocoderServiceError carrying the message
  otherwise.
\<close>

theorem C4_status_message:
  assumes "map_of doc ''status'' = Some (JObj st)"
    and "map_of st ''message'' = Some (JStr m)"
  shows "parse_json E doc exactly_one =
     Inl (if prefix ''user account not enabled to use'' m
          then GeocoderInsufficientPrivileges m else GeocoderServiceError m)"
  using assms by (simp add: parse_json_def dict_get_Some status_error_message Let_def)

text \<open>C4, at one response of each kind, both carrying a valid place.\<close>

theorem C4_status_message_witness:
  "parse_json (sample_env [])
     [(''geonames'', JArr [JObj [(''lat'', JStr ''52''), (''lng'', JStr ''13'')]]),
      (''status'', JObj [(''message'', JStr ''user account not enabled to use the premium service''),
                         (''value'', JInt 10)])]
     False =
     Inl (GeocoderInsufficientPrivileges ''user account not enabled to use the premium service'') \<and>
   parse_json (sample_env [])
     [(''geonames'', JArr [JObj [(''lat'', JStr ''52''), (''lng'', JStr ''13'')]]),
      (''status'', JObj [(''message'', JStr ''invalid user''), (''value'', JInt 10)])]
     True =
     Inl (GeocoderServiceError ''invalid user'')"
proof -
  let ?g = "(''geonames'', JArr [JObj [(''lat'', JStr ''52''), (''lng'', JStr ''13'')]]) :: string \<times> int json"
  let ?s1 = "[(''message'', JStr ''user account not enabled to use the premium service''),
              (''value'', JInt 10)] :: int dict"
  let ?s2 = "[(''message'', JStr ''invalid user''), (''value'', JInt 10)] :: int dict"
  have a1: "map_of [?g, (''status'', JObj ?s1)] ''status'' = Some (JObj ?s1)" by simp
  have b1: "map_of ?s1 ''message'' =
     Some (JStr ''user account not enabled to use the premium service'')" by simp
  have a2: "map_of [?g, (''status'', JObj ?s2)] ''status'' = Some (JObj ?s2)" by simp
  have b2: "map_of ?s2 ''message'' = Some (JStr ''invalid user'')" by simp
  from C4_status_message [OF a1 b1, of "sample_env []" False]
       C4_status_message [OF a2 b2, of "sample_env []" True]
  show ?thesis by simp
qed

text \<open>
  C5. A response whose \<open>geonames\<close> array is empty or absent and which carries no status
  message (no status, a null status, or a status object without \<open>message\<close>) parses to
  \<^verbatim>\<open>None\<close> for either value of \<^verbatim>\<open>exactly_one\<close>; so \<^verbatim>\<open>geocode\<close> and \<^verbatim>\<open>reverse\<close> return
  \<^verbatim>\<open>None\<close> whenever the transport answers their request with such a response.
\<close>


theorem C5_no_places:
  assumes places: "map_of doc ''geonames'' = None \<or> map_of doc ''geonames'' = Some (JArr [])"
    and status: "map_of doc ''status'' = None \<or> map_of doc ''status'' = Some JNull \<or>
       (\<exists>st. map_of doc ''status'' = Some (JObj st) \<and> map_of st ''message'' = None)"
  shows "parse_json E doc exactly_one = Inr (Single None) \<and>
         (requested (geocode E self q exactly_one t) = [url] \<and> call_geocoder E url t = Inr doc
            \<longrightarrow> outcome (geocode E self q exactly_one t) = Inr (Single None)) \<and>
         (requested (reverse E self q' eo t fc lang fnt) = [url'] \<and> call_geocoder E url' t = Inr doc
            \<longrightarrow> outcome (reverse E self q' eo t fc lang fnt) = Inr (Single None))"
proof -
  have st: "status_error E (dict_get doc ''status'' JNull) = None"
    using status by (rule status_error_absent)
  have pj: "parse_json E doc x = Inr (Single None)" for x
    using st places by (rule parse_json_no_places)
  show ?thesis
    by (auto simp: pj geocode_outcome reverse_outcome call_and_parse_def)
qed

text \<open>
  C5, at the sample adapter and a transport that answers with an empty array of places.
\<close>


theorem C5_no_places_witness:
  "outcome (geocode (sample_env [(''geonames'', JArr [])]) sample_adapter ''Berlin'' True
              DEFAULT_SENTINEL) = Inr (Single None) \<and>
   outcome (reverse (sample_env [(''geonames'', JArr [])]) sample_adapter ''52,13'' (Given False)
              DEFAULT_SENTINEL None None ''findNearbyPlaceName'') = Inr (Single None) \<and>
   parse_json (sample_env [(''geonames'', JArr [])]) [(''geonames'', JArr [])] False =
     Inr (Single None)"
proof -
  let ?doc = "[(''geonames'', JArr [])] :: int dict"
  have places: "map_of ?doc ''geonames'' = None \<or> map_of ?doc ''geonames'' = Some (JArr [])"
    by simp
  have status: "map_of ?doc ''status'' = None \<or> map_of ?doc ''status'' = Some JNull \<or>
       (\<exists>st. map_of ?doc ''status'' = Some (JObj st) \<and> map_of st ''message'' = None)"
    by simp
  have call: "call_geocoder (sample_env ?doc) url DEFAULT_SENTINEL = Inr ?doc" for url
    by (simp add: sample_env_def)
  from C5_no_places [OF places status, where E = "sample_env ?doc" and self = sample_adapter
      and t = DEFAULT_SENTINEL and q = "''Berlin''" and q' = "''52,13''" and fc = None
      and lang = None and fnt = "''findNearbyPlaceName''" and exactly_one = True
      and eo = "Given False"
      and url = "''http://api.geonames.org/searchJSON?q=Berlin&username=demo&maxRows=1''"
      and url' = "''http://api.geonames.org/findNearbyPlaceNameJSON?lat=52&lng=13&username=demo''"]
    C5_no_places [OF places status, where E = "sample_env ?doc" and exactly_one = False]
  show ?thesis
    using sample_geocode_request [of ?doc] sample_reverse_request [of ?doc "Given False"] call
    by blast
qed

section \<open>Reverse lookup\<close>

text \<open>
  C6. A call of \<^verbatim>\<open>reverse\<close> without \<^verbatim>\<open>exactly_one\<close> hands exactly one
  DeprecationWarning to \<^verbatim>\<open>warnings.warn\<close>, and apart from that warning does what the same
  call with \<^verbatim>\<open>exactly_one=False\<close> does: same error or reply, same request. The call with
  \<^verbatim>\<open>exactly_one=False\<close> warns of nothing. (Whether a repeated warning is shown again is
  decided by the filters of Python's \<^verbatim>\<open>warnings\<close> module.)
\<close>


theorem C6_default_exactly_one:
  "reverse E self q DEFAULT_SENTINEL t fc lang fnt =
     (reverse E self q (Given False) t fc lang fnt) \<lparr> warned := [exactly_one_warning] \<rparr> \<and>
   warned (reverse E self q (Given False) t fc lang fnt) = [] \<and>
   warned (reverse E self q DEFAULT_SENTINEL t fc lang fnt) = [exactly_one_warning] \<and>
   requested (reverse E self q DEFAULT_SENTINEL t fc lang fnt) =
     requested (reverse E self q (Given False) t fc lang fnt) \<and>
   outcome (reverse E self q DEFAULT_SENTINEL t fc lang fnt) =
     outcome (reverse E self q (Given False) t fc lang fnt)"
  by (simp add: reverse_def Let_def split: sum.split prod.split)

text \<open>
  C6, at the sample adapter.
\<close>


theorem C6_default_exactly_one_witness:
  "warned (reverse (sample_env [(''geonames'', JArr [JObj []])]) sample_adapter ''52,13''
             DEFAULT_SENTINEL DEFAULT_SENTINEL None None ''findNearbyPlaceName'') =
     [exactly_one_warning] \<and>
   outcome (reverse (sample_env [(''geonames'', JArr [JObj []])]) sample_adapter ''52,13''
             DEFAULT_SENTINEL DEFAULT_SENTINEL None None ''findNearbyPlaceName'') =
     outcome (reverse (sample_env [(''geonames'', JArr [JObj []])]) sample_adapter ''52,13''
             (Given False) DEFAULT_SENTINEL None None ''findNearbyPlaceName'')"
  using C6_default_exactly_one [of "sample_env [(''geonames'', JArr [JObj []])]" sample_adapter
      "''52,13''" DEFAULT_SENTINEL None None "''findNearbyPlaceName''"]
  by simp

text \<open>
  C7. In a call of \<^verbatim>\<open>reverse\<close> whose query the coercion helper turns into a string:
  a non-empty feature code together with \<open>findNearbyPlaceName\<close> fails with ValueError,
  and a non-empty \<open>lang\<close> together with \<open>findNearby\<close> fails with ValueError; in both
  cases no request is issued. (The source tests \<^verbatim>\<open>if feature_code:\<close> and \<^verbatim>\<open>if lang:\<close>,
  so an empty string counts as not supplied.)
\<close>


theorem C7_incompatible_parameters:
  assumes "coerce_point_to_string E q = Inr s"
  shows "(fc = Some c \<and> c \<noteq> [] \<longrightarrow>
            (\<exists>m. outcome (reverse E self q eo t fc lang ''findNearbyPlaceName'') =
                    Inl (ValueError m)) \<and>
            requested (reverse E self q eo t fc lang ''findNearbyPlaceName'') = []) \<and>
         (lang = Some l \<and> l \<noteq> [] \<longrightarrow>
            (\<exists>m. outcome (reverse E self q eo t fc lang ''findNearby'') = Inl (ValueError m)) \<and>
            requested (reverse E self q eo t fc lang ''findNearby'') = [])"
  using coordinate_pair_ValueError [OF assms]
  by (auto simp: reverse_def Let_def)

text \<open>
  C7, at the sample adapter, with the messages of the two errors.
\<close>


theorem C7_incompatible_parameters_witness:
  "outcome (reverse (sample_env []) sample_adapter ''52,13'' (Given True) DEFAULT_SENTINEL
              (Some ''PPL'') None ''findNearbyPlaceName'') =
     Inl (ValueError ''find_nearby_type=findNearbyPlaceName doesn't support the `feature_code` param'') \<and>
   requested (reverse (sample_env []) sample_adapter ''52,13'' (Given True) DEFAULT_SENTINEL
              (Some ''PPL'') None ''findNearbyPlaceName'') = [] \<and>
   outcome (reverse (sample_env []) sample_adapter ''52,13'' (Given True) DEFAULT_SENTINEL
              None (Some ''de'') ''findNearby'') =
     Inl (ValueError ''find_nearby_type=findNearby doesn't support the `lang` param'') \<and>
   requested (reverse (sample_env []) sample_adapter ''52,13'' (Given True) DEFAULT_SENTINEL
              None (Some ''de'') ''findNearby'') = []"
proof -
  have co: "coerce_point_to_string (sample_env []) ''52,13'' = Inr ''52,13''"
    by (simp add: sample_env_def)
  have cp: "coordinate_pair (sample_env []) ''52,13'' = Inr (''52'', ''13'')"
    by (simp add: coordinate_pair_def sample_env_def)
  from C7_incompatible_parameters [OF co, where fc = "Some ''PPL''" and c = "''PPL''"
      and lang = None and self = sample_adapter and eo = "Given True" and t = DEFAULT_SENTINEL]
  have a: "requested (reverse (sample_env []) sample_adapter ''52,13'' (Given True) DEFAULT_SENTINEL
              (Some ''PPL'') None ''findNearbyPlaceName'') = []"
    by simp
  from C7_incompatible_parameters [OF co, where lang = "Some ''de''" and l = "''de''"
      and fc = None and self = sample_adapter and eo = "Given True" and t = DEFAULT_SENTINEL]
  have b: "requested (reverse (sample_env []) sample_adapter ''52,13'' (Given True) DEFAULT_SENTINEL
              None (Some ''de'') ''findNearby'') = []"
    by simp
  show ?thesis using a b cp by (simp add: reverse_def)
qed

text \<open>
  C8 (amended). In a call of \<^verbatim>\<open>reverse\<close> whose query splits into a coordinate pair, a
  \<^verbatim>\<open>find_nearby_type\<close> other than \<open>findNearbyPlaceName\<close> and \<open>findNearby\<close> fails with
  GeocoderQueryError; the message quotes the value, and no request is issued.
\<close>


theorem C8_unsupported_mode:
  assumes "coerce_point_to_string E q = Inr s"
    and "split_on CHR '','' s = [lat, lng]"
    and "fnt \<noteq> ''findNearbyPlaceName''" and "fnt \<noteq> ''findNearby''"
  shows "outcome (reverse E self q eo t fc lang fnt) =
           Inl (GeocoderQueryError (''`'' @ fnt @ ''` find_nearby_type is not supported by geopy'')) \<and>
         requested (reverse E self q eo t fc lang fnt) = []"
  using assms by (simp add: reverse_def coordinate_pair_def Let_def)

text \<open>
  C8, at the sample adapter and the mode \<open>unknown\<close>.
\<close>


theorem C8_unsupported_mode_witness:
  "outcome (reverse (sample_env []) sample_adapter ''52,13'' (Given False) DEFAULT_SENTINEL
              None None ''unknown'') =
     Inl (GeocoderQueryError ''`unknown` find_nearby_type is not supported by geopy'') \<and>
   requested (reverse (sample_env []) sample_adapter ''52,13'' (Given False) DEFAULT_SENTINEL
              None None ''unknown'') = []"
proof -
  have co: "coerce_point_to_string (sample_env []) ''52,13'' = Inr ''52,13''"
    by (simp add: sample_env_def)
  have sp: "split_on CHR '','' ''52,13'' = [''52'', ''13'']" by simp
  have n1: "''unknown'' \<noteq> ''findNearbyPlaceName''" by simp
  have n2: "''unknown'' \<noteq> ''findNearby''" by simp
  from C8_unsupported_mode [OF co sp n1 n2, of sample_adapter "Given False" DEFAULT_SENTINEL None None]
  show ?thesis by simp
qed

text \<open>
  C8 as stated fails for a query that does not split into two parts: the coordinate step
  of \<^verbatim>\<open>reverse\<close> comes before the mode test, so
  \<^verbatim>\<open>reverse('a,b,c', exactly_one=False, find_nearby_type='unknown')\<close> raises the
  ValueError of the coordinate step, not GeocoderQueryError.
\<close>

theorem C8_malformed_query_counterexample:
  "outcome (reverse (sample_env []) sample_adapter ''a,b,c'' (Given False) DEFAULT_SENTINEL
              None None ''unknown'') =
     Inl (ValueError ''Must be a coordinate pair or Point'')"
  by (simp add: reverse_def coordinate_pair_def sample_env_def)

section \<open>Labels and zero coordinates\<close>

text \<open>
  C9. The label of the \<^verbatim>\<open>Location\<close> built for a place is the join, with a comma and a
  space, of the non-empty members of \<open>[name, adminName1, countryName]\<close>; absent and empty
  members are skipped.
\<close>


theorem C9_label:
  assumes "parse_code E (JObj p) = Inr (Some loc)"
  shows "address loc = spec_label p"
proof -
  let ?os = "[map_of p ''name'', map_of p ''adminName1'', map_of p ''countryName'']"
  have members: "[dict_get p ''name'' JNull, dict_get p ''adminName1'' JNull,
                  dict_get p ''countryName'' JNull] =
                 map (\<lambda>x. case x of None \<Rightarrow> JNull | Some v \<Rightarrow> v) ?os"
    by (simp add: dict_get_def)
  from assms have "py_join '', '' (filter (truthy E)
        [dict_get p ''name'' JNull, dict_get p ''adminName1'' JNull,
         dict_get p ''countryName'' JNull]) = Inr (address loc)"
    by (auto simp: Let_def split: if_splits sum.splits)
  then have "py_join '', '' (filter (truthy E)
        (map (\<lambda>x. case x of None \<Rightarrow> JNull | Some v \<Rightarrow> v) ?os)) = Inr (address loc)"
    by (simp only: members)
  then have "address loc = join '', '' (text_parts ?os)"
    by (rule py_join_text_parts)
  then show ?thesis by (simp only: spec_label_def)
qed

text \<open>
  C9, at the two places of the specification: with and without \<open>adminName1\<close>.
\<close>


theorem C9_label_witness:
  "parse_code (sample_env [])
     (JObj [(''lat'', JStr ''52''), (''lng'', JStr ''13''), (''name'', JStr ''Berlin''),
            (''adminName1'', JStr ''Berlin''), (''countryName'', JStr ''Germany'')]) =
     Inr (Some \<lparr> address = ''Berlin, Berlin, Germany'', point = (52, 13),
                  raw = [(''lat'', JStr ''52''), (''lng'', JStr ''13''), (''name'', JStr ''Berlin''),
                         (''adminName1'', JStr ''Berlin''), (''countryName'', JStr ''Germany'')] \<rparr>) \<and>
   spec_label [(''lat'', JStr ''52''), (''lng'', JStr ''13''), (''name'', JStr ''Berlin''),
               (''adminName1'', JStr ''Berlin''), (''countryName'', JStr ''Germany'') :: string \<times> int json] =
     ''Berlin, Berlin, Germany'' \<and>
   parse_code (sample_env [])
     (JObj [(''lat'', JStr ''52''), (''lng'', JStr ''13''), (''name'', JStr ''Berlin''),
            (''countryName'', JStr ''Germany'')]) =
     Inr (Some \<lparr> address = ''Berlin, Germany'', point = (52, 13),
                  raw = [(''lat'', JStr ''52''), (''lng'', JStr ''13''), (''name'', JStr ''Berlin''),
                         (''countryName'', JStr ''Germany'')] \<rparr>) \<and>
   spec_label [(''lat'', JStr ''52''), (''lng'', JStr ''13''), (''name'', JStr ''Berlin''),
               (''countryName'', JStr ''Germany'') :: string \<times> int json] =
     ''Berlin, Germany''"
proof -
  let ?p = "[(''lat'', JStr ''52''), (''lng'', JStr ''13''), (''name'', JStr ''Berlin''),
             (''adminName1'', JStr ''Berlin''), (''countryName'', JStr ''Germany'')] :: int dict"
  let ?q = "[(''lat'', JStr ''52''), (''lng'', JStr ''13''), (''name'', JStr ''Berlin''),
             (''countryName'', JStr ''Germany'')] :: int dict"
  have a: "parse_code (sample_env []) (JObj ?p) =
     Inr (Some \<lparr> address = ''Berlin, Berlin, Germany'', point = (52, 13), raw = ?p \<rparr>)"
    by (simp add: dict_get_def Let_def sample_env_def sample_float_of_str_def digit_of_def
        py_join_def)
  have b: "parse_code (sample_env []) (JObj ?q) =
     Inr (Some \<lparr> address = ''Berlin, Germany'', point = (52, 13), raw = ?q \<rparr>)"
    by (simp add: dict_get_def Let_def sample_env_def sample_float_of_str_def digit_of_def
        py_join_def)
  from C9_label [OF a] C9_label [OF b] a b show ?thesis by simp
qed

text \<open>
  C10. A place whose \<open>lat\<close> or \<open>lng\<close> is present with the number 0, or with any other
  falsy value, yields no \<^verbatim>\<open>Location\<close>, exactly as the same place without that field; when
  it is the first place of a response that passes the status test, \<^verbatim>\<open>exactly_one\<close> mode
  returns \<^verbatim>\<open>None\<close>.
\<close>


theorem C10_zero_coordinate:
  assumes "k = ''lat'' \<or> k = ''lng''"
    and "map_of p k = Some v"
    and "v = JInt 0 \<or> \<not> truthy E v"
  shows "parse_code E (JObj p) = Inr None \<and>
         parse_code E (JObj p) = parse_code E (JObj (filter (\<lambda>kv. fst kv \<noteq> k) p)) \<and>
         (status_error E (dict_get doc ''status'' JNull) = None \<and>
          map_of doc ''geonames'' = Some (JArr (JObj p # ps))
            \<longrightarrow> parse_json E doc True = Inr (Single None))"
proof -
  from assms(3) have falsy: "\<not> truthy E v" by auto
  with assms(2) have mf: "missing_or_falsy E p k" by (simp add: missing_or_falsy_def)
  with assms(1) have inv: "missing_or_falsy E p ''lat'' \<or> missing_or_falsy E p ''lng''" by auto
  have a: "parse_code E (JObj p) = Inr None"
    using inv by (rule parse_code_invalid)
  have "missing_or_falsy E (filter (\<lambda>kv. fst kv \<noteq> k) p) k"
    by (rule missing_or_falsy_without)
  with assms(1) have "missing_or_falsy E (filter (\<lambda>kv. fst kv \<noteq> k) p) ''lat'' \<or>
      missing_or_falsy E (filter (\<lambda>kv. fst kv \<noteq> k) p) ''lng''" by auto
  then have b: "parse_code E (JObj (filter (\<lambda>kv. fst kv \<noteq> k) p)) = Inr None"
    by (rule parse_code_invalid)
  have c: "parse_json E doc True = Inr (Single None)"
    if "status_error E (dict_get doc ''status'' JNull) = None"
      and "map_of doc ''geonames'' = Some (JArr (JObj p # ps))"
    using that by (simp add: parse_json_passed a del: parse_code.simps)
  from a b c show ?thesis by simp
qed

text \<open>
  C10, at a place on the equator whose \<open>lat\<close> is the number 0, followed by a valid place.
\<close>


theorem C10_zero_coordinate_witness:
  "parse_code (sample_env []) (JObj [(''lat'', JInt 0), (''lng'', JStr ''13''), (''name'', JStr ''Equator'')]) =
     Inr None \<and>
   parse_code (sample_env []) (JObj [(''lng'', JStr ''13''), (''name'', JStr ''Equator'')]) = Inr None \<and>
   parse_json (sample_env [])
     [(''geonames'', JArr [JObj [(''lat'', JInt 0), (''lng'', JStr ''13''), (''name'', JStr ''Equator'')],
                           JObj [(''lat'', JStr ''52''), (''lng'', JStr ''13'')]])] True =
     Inr (Single None)"
proof -
  let ?p = "[(''lat'', JInt 0), (''lng'', JStr ''13''), (''name'', JStr ''Equator'')] :: int dict"
  let ?ps = "[JObj [(''lat'', JStr ''52''), (''lng'', JStr ''13'')]] :: int json list"
  let ?doc = "[(''geonames'', JArr (JObj ?p # ?ps))]"
  have k: "''lat'' = ''lat'' \<or> ''lat'' = ''lng''" by simp
  have m: "map_of ?p ''lat'' = Some (JInt 0)" by simp
  have z: "(JInt 0 :: int json) = JInt 0 \<or> \<not> truthy (sample_env []) (JInt 0 :: int json)" by simp
  have st: "status_error (sample_env []) (dict_get ?doc ''status'' JNull) = None"
    by (simp add: dict_get_def status_error_def)
  have pl: "map_of ?doc ''geonames'' = Some (JArr (JObj ?p # ?ps))" by simp
  from C10_zero_coordinate [OF k m z, of ?doc ?ps] st pl show ?thesis
    by (simp add: dict_get_def Let_def)
qed

end
